theory Spec2Isabelle
  imports Main
begin

section \<open>Tables read from the workbook\<close>

text \<open>
  The script \<^verbatim>\<open>streamlit_app.py\<close> reads an Excel workbook with pandas, lets the user
  pick one sheet and a view, and draws a Plotly line chart. The embedding follows the
  script top to bottom. What the script takes from pandas, Streamlit and Plotly is
  modelled by small total functions, each with a note on the library behaviour it
  stands for; every exception the script can meet is a value of \<open>py_error\<close>.

  A cell is a whole number, a text, or missing. Fractional numbers are not modelled.
  A column label is the text of the header cell, or a number when the header cell
  holds a number (pandas keeps such a label as an \<^verbatim>\<open>int\<close>).
\<close>

datatype cell = IntCell int | StrCell string | NaN

datatype label = StrLabel string | IntLabel int

datatype py_error = FileNotFoundError | ValueError | KeyError | AttributeError | TypeError

text \<open>
  A DataFrame: the length of its index (the number of rows) and its columns in their
  physical order, each with its cells. \<^verbatim>\<open>read_excel\<close> renames repeated headers, so
  the labels of a frame it returns are distinct; a lookup by label takes the first match.
\<close>

record dataframe =
  index_len :: nat
  series :: "(label \<times> cell list) list"

definition columns :: "dataframe \<Rightarrow> label list" where
  "columns df = map fst (series df)"

text \<open>\<^verbatim>\<open>df.empty\<close>: true when either axis has length zero.\<close>

definition df_empty :: "dataframe \<Rightarrow> bool" where
  "df_empty df = (index_len df = 0 \<or> length (columns df) = 0)"

text \<open>
  A workbook as \<^verbatim>\<open>pd.ExcelFile\<close> presents it: the sheet names in workbook order,
  each with the frame \<^verbatim>\<open>pd.read_excel(xls, sheet_name)\<close> returns for it. The file
  system is a function from a path to the opened workbook or the exception raised by
  opening it.
\<close>

type_synonym workbook = "(string \<times> dataframe) list"

type_synonym filesystem = "string \<Rightarrow> py_error + workbook"

section \<open>Python containers and strings\<close>

text \<open>
  A \<^verbatim>\<open>dict\<close> keeps insertion order: \<^verbatim>\<open>d[k] = v\<close> replaces the value of a key
  already present where it stands, and appends a new key at the end.
\<close>

fun dict_set :: "('k \<times> 'v) list \<Rightarrow> 'k \<Rightarrow> 'v \<Rightarrow> ('k \<times> 'v) list" where
  "dict_set [] k v = [(k, v)]"
| "dict_set ((k', v') # kvs) k v =
     (if k' = k then (k, v) # kvs else (k', v') # dict_set kvs k v)"

text \<open>\<^verbatim>\<open>s.endswith(suffix)\<close>.\<close>

definition endswith :: "string \<Rightarrow> string \<Rightarrow> bool" where
  "endswith s suffix =
     (length suffix \<le> length s \<and> drop (length s - length suffix) s = suffix)"

section \<open>The loader\<close>

text \<open>
  The loop of \<^verbatim>\<open>load_data\<close> over \<^verbatim>\<open>xls.sheet_names\<close>, with the dictionary
  \<^verbatim>\<open>data\<close> as accumulator.
\<close>

fun load_sheets :: "workbook \<Rightarrow> (string \<times> dataframe) list \<Rightarrow> (string \<times> dataframe) list" where
  "load_sheets [] data = data"
| "load_sheets ((sheet_name, df) # rest) data =
     load_sheets rest
       (if \<not> df_empty df \<and> StrLabel ''Year'' \<in> set (columns df)
        then dict_set data sheet_name df else data)"

text \<open>
  \<^verbatim>\<open>load_data\<close>: an exception of \<^verbatim>\<open>pd.ExcelFile\<close> leaves the function as it is
  (there is no handler inside). The \<^verbatim>\<open>st.cache_data\<close> decorator only memoises the
  result per path and does not change it.
\<close>

definition load_data :: "filesystem \<Rightarrow> string \<Rightarrow> py_error + (string \<times> dataframe) list" where
  "load_data fs excel_file =
     (case fs excel_file of
        Inl e \<Rightarrow> Inl e
      | Inr xls \<Rightarrow> Inr (load_sheets xls []))"

section \<open>Choosing the columns to plot\<close>

text \<open>
  The comprehension \<^verbatim>\<open>[col for col in selected_df.columns if col.endswith("_pct")]\<close>.
  A label that is not a string has no \<^verbatim>\<open>endswith\<close>: the comprehension raises
  \<^verbatim>\<open>AttributeError\<close>.
\<close>

fun pct_columns :: "label list \<Rightarrow> py_error + string list" where
  "pct_columns [] = Inr []"
| "pct_columns (IntLabel n # cols) = Inl AttributeError"
| "pct_columns (StrLabel col # cols) =
     (case pct_columns cols of
        Inl e \<Rightarrow> Inl e
      | Inr rest \<Rightarrow> Inr (if endswith col ''_pct'' then col # rest else rest))"

text \<open>The four variables the \<^verbatim>\<open>if view_type == "Percent change"\<close> block assigns.\<close>

record view =
  plot_columns :: "string list"
  y_label :: string
  title_suffix :: string
  zero_line :: bool

text \<open>
  The two title suffixes start with a space, an en dash (U+2013, three bytes in UTF-8)
  and a space.
\<close>

definition en_dash :: string where
  "en_dash = [CHR 0xE2, CHR 0x80, CHR 0x93]"

definition select_view :: "string \<Rightarrow> dataframe \<Rightarrow> py_error + view" where
  "select_view view_type selected_df =
     (if view_type = ''Percent change'' then
        (case pct_columns (columns selected_df) of
           Inl e \<Rightarrow> Inl e
         | Inr cols \<Rightarrow>
             Inr \<lparr>plot_columns = cols,
                  y_label = ''Percent change (%)'',
                  title_suffix = '' '' @ en_dash @ '' Percent Change'',
                  zero_line = True\<rparr>)
      else
        Inr \<lparr>plot_columns =
               filter (\<lambda>col. StrLabel col \<in> set (columns selected_df))
                 [''0-24'', ''25-64'', ''65-79'', ''80+'', ''All ages''],
             y_label = ''Population (persons)'',
             title_suffix = '' '' @ en_dash @ '' Population Counts'',
             zero_line = False\<rparr>)"

section \<open>Operations on frames\<close>

text \<open>\<^verbatim>\<open>df[[k1, k2, ...]]\<close>: the named columns in the order asked for; \<^verbatim>\<open>KeyError\<close>
  when a label is not a column.\<close>

fun select_columns :: "(label \<times> cell list) list \<Rightarrow> label list \<Rightarrow> py_error + (label \<times> cell list) list" where
  "select_columns s [] = Inr []"
| "select_columns s (k # ks) =
     (case map_of s k of
        None \<Rightarrow> Inl KeyError
      | Some cs \<Rightarrow>
          (case select_columns s ks of
             Inl e \<Rightarrow> Inl e
           | Inr rest \<Rightarrow> Inr ((k, cs) # rest)))"

definition getitem_list :: "dataframe \<Rightarrow> label list \<Rightarrow> py_error + dataframe" where
  "getitem_list df keys =
     (case select_columns (series df) keys of
        Inl e \<Rightarrow> Inl e
      | Inr s \<Rightarrow> Inr \<lparr>index_len = index_len df, series = s\<rparr>)"

text \<open>\<^verbatim>\<open>df[k]\<close>: one column.\<close>

definition getitem :: "dataframe \<Rightarrow> label \<Rightarrow> py_error + cell list" where
  "getitem df k = (case map_of (series df) k of None \<Rightarrow> Inl KeyError | Some cs \<Rightarrow> Inr cs)"

text \<open>
  \<^verbatim>\<open>Series.min()\<close> and \<^verbatim>\<open>Series.max()\<close>. A column without text is numeric: missing
  cells are skipped, and the result is missing when nothing is left. A column with a
  text cell has dtype \<^verbatim>\<open>object\<close> and is reduced with Python's own comparison: texts
  compare by code point, and comparing a text with a number (a missing cell counts as
  one) raises \<^verbatim>\<open>TypeError\<close>.
\<close>

fun str_lt :: "string \<Rightarrow> string \<Rightarrow> bool" where
  "str_lt [] [] = False"
| "str_lt [] (b # bs) = True"
| "str_lt (a # as) [] = False"
| "str_lt (a # as) (b # bs) =
     ((of_char a :: nat) < of_char b \<or> (a = b \<and> str_lt as bs))"

fun is_text :: "cell \<Rightarrow> bool" where
  "is_text (StrCell s) = True"
| "is_text c = False"

fun numbers :: "cell list \<Rightarrow> int list" where
  "numbers [] = []"
| "numbers (IntCell n # cs) = n # numbers cs"
| "numbers (c # cs) = numbers cs"

fun texts :: "cell list \<Rightarrow> string list" where
  "texts [] = []"
| "texts (StrCell s # cs) = s # texts cs"
| "texts (c # cs) = texts cs"

definition series_min :: "cell list \<Rightarrow> py_error + cell" where
  "series_min cs =
     (if list_ex is_text cs then
        (if list_all is_text cs
         then (case texts cs of
                 [] \<Rightarrow> Inr NaN
               | s # ss \<Rightarrow> Inr (StrCell (fold (\<lambda>a m. if str_lt a m then a else m) ss s)))
         else Inl TypeError)
      else
        (case numbers cs of
           [] \<Rightarrow> Inr NaN
         | n # ns \<Rightarrow> Inr (IntCell (fold min ns n))))"

definition series_max :: "cell list \<Rightarrow> py_error + cell" where
  "series_max cs =
     (if list_ex is_text cs then
        (if list_all is_text cs
         then (case texts cs of
                 [] \<Rightarrow> Inr NaN
               | s # ss \<Rightarrow> Inr (StrCell (fold (\<lambda>a m. if str_lt m a then a else m) ss s)))
         else Inl TypeError)
      else
        (case numbers cs of
           [] \<Rightarrow> Inr NaN
         | n # ns \<Rightarrow> Inr (IntCell (fold max ns n))))"

section \<open>The chart\<close>

text \<open>
  A figure holds what the script sets: one trace per plotted column (its name, its x
  and y values, its colour when the colour map has one and \<open>None\<close> when Plotly picks
  from its default sequence, its line width), the title, the axis and legend titles,
  the x-axis range once set, and the horizontal lines added.
\<close>

record trace =
  trace_name :: string
  trace_x :: "cell list"
  trace_y :: "cell list"
  trace_color :: "string option"
  trace_width :: nat

record hline =
  hline_y :: int
  hline_dash :: string
  hline_color :: string

record figure =
  traces :: "trace list"
  title :: string
  yaxis_title :: string
  legend_title :: string
  xaxis_range :: "(cell \<times> cell) option"
  hlines :: "hline list"

definition color_map :: "(string \<times> string) list" where
  "color_map =
     [(''0-24'', ''#F5B041''),
      (''25-64'', ''#5DADE2''),
      (''65-79'', ''#58D68D''),
      (''80+'', ''#E74C3C''),
      (''All ages'', ''#34495E''),
      (''0-24_pct'', ''#F5B041''),
      (''25-64_pct'', ''#5DADE2''),
      (''65-79_pct'', ''#58D68D''),
      (''80+_pct'', ''#E74C3C''),
      (''All ages_pct'', ''#34495E'')]"

text \<open>
  \<^verbatim>\<open>px.line(data_frame, x=..., y=[...], labels=..., title=..., color_discrete_map=...)\<close>
  in wide form: one trace per column of \<open>y\<close>, in the order of \<open>y\<close>, named after the
  column and coloured by the map's entry for that name; the default line width is 2.
  A column that the frame lacks is a \<^verbatim>\<open>ValueError\<close>. Other failures inside Plotly
  are not modelled.
\<close>

fun px_traces :: "dataframe \<Rightarrow> cell list \<Rightarrow> string list \<Rightarrow> (string \<times> string) list \<Rightarrow> py_error + trace list" where
  "px_traces data_frame xs [] color_discrete_map = Inr []"
| "px_traces data_frame xs (col # cols) color_discrete_map =
     (case map_of (series data_frame) (StrLabel col) of
        None \<Rightarrow> Inl ValueError
      | Some ys \<Rightarrow>
          (case px_traces data_frame xs cols color_discrete_map of
             Inl e \<Rightarrow> Inl e
           | Inr rest \<Rightarrow>
               Inr (\<lparr>trace_name = col, trace_x = xs, trace_y = ys,
                      trace_color = map_of color_discrete_map col,
                      trace_width = 2\<rparr> # rest)))"

definition px_line :: "dataframe \<Rightarrow> string \<Rightarrow> string list \<Rightarrow> string \<Rightarrow> string \<Rightarrow> string \<Rightarrow> (string \<times> string) list \<Rightarrow> py_error + figure" where
  "px_line data_frame x y value_label variable_label title_text color_discrete_map =
     (case map_of (series data_frame) (StrLabel x) of
        None \<Rightarrow> Inl ValueError
      | Some xs \<Rightarrow>
          (case px_traces data_frame xs y color_discrete_map of
             Inl e \<Rightarrow> Inl e
           | Inr ts \<Rightarrow>
               Inr \<lparr>traces = ts, title = title_text, yaxis_title = value_label,
                    legend_title = variable_label, xaxis_range = None, hlines = []\<rparr>))"

text \<open>\<^verbatim>\<open>fig.update_traces(line=dict(width=w))\<close>\<close>

definition update_traces :: "figure \<Rightarrow> nat \<Rightarrow> figure" where
  "update_traces fig w = fig\<lparr>traces := map (\<lambda>t. t\<lparr>trace_width := w\<rparr>) (traces fig)\<rparr>"

text \<open>\<^verbatim>\<open>fig.update_xaxes(range=[lo, hi])\<close>\<close>

definition update_xaxes :: "figure \<Rightarrow> cell \<Rightarrow> cell \<Rightarrow> figure" where
  "update_xaxes fig lo hi = fig\<lparr>xaxis_range := Some (lo, hi)\<rparr>"

text \<open>
  \<^verbatim>\<open>fig.add_hline(y=..., line_dash=..., line_color=...)\<close>. The call leaves
  \<^verbatim>\<open>exclude_empty_subplots\<close> at its default \<^verbatim>\<open>True\<close>: Plotly draws the line only
  on a subplot that holds a trace, so a figure without traces is returned as it is.
\<close>

definition add_hline :: "figure \<Rightarrow> int \<Rightarrow> string \<Rightarrow> string \<Rightarrow> figure" where
  "add_hline fig y0 dash color =
     (if traces fig = [] then fig
      else fig\<lparr>hlines := hlines fig @
             [\<lparr>hline_y = y0, hline_dash = dash, hline_color = color\<rparr>]\<rparr>)"

section \<open>The script\<close>

text \<open>
  Lines 91 to 144 of the script: from the selected sheet and the view to the figure
  handed to \<^verbatim>\<open>st.plotly_chart\<close>. An exception raised on the way is not caught.
\<close>

definition render :: "string \<Rightarrow> dataframe \<Rightarrow> string \<Rightarrow> py_error + figure" where
  "render selected_area selected_df view_type =
     (case select_view view_type selected_df of
        Inl e \<Rightarrow> Inl e
      | Inr v \<Rightarrow>
     (case getitem_list selected_df (StrLabel ''Year'' # map StrLabel (plot_columns v)) of
        Inl e \<Rightarrow> Inl e
      | Inr plot_df \<Rightarrow>
     (case px_line plot_df ''Year'' (plot_columns v) (y_label v) ''Age group''
             (selected_area @ title_suffix v) color_map of
        Inl e \<Rightarrow> Inl e
      | Inr fig0 \<Rightarrow>
     (case getitem plot_df (StrLabel ''Year'') of
        Inl e \<Rightarrow> Inl e
      | Inr years \<Rightarrow>
     (case series_min years of
        Inl e \<Rightarrow> Inl e
      | Inr lo \<Rightarrow>
     (case series_max years of
        Inl e \<Rightarrow> Inl e
      | Inr hi \<Rightarrow>
          (let fig1 = update_traces fig0 3;
               fig2 = update_xaxes fig1 lo hi
           in Inr (if zero_line v then add_hline fig2 0 ''dash'' ''gray'' else fig2))))))))"

text \<open>
  The messages of the two \<^verbatim>\<open>st.error\<close> calls, and the ways a run of the script ends:
  \<^verbatim>\<open>st.stop()\<close> after a message, an uncaught exception, or the chart on the page.
\<close>

datatype message = LoadFailed string py_error | NoValidWorksheets

datatype outcome = Stopped message | Raised py_error | Charted figure

text \<open>
  The whole script. \<open>selected_area\<close> is what the select box returns (one of the keys
  it was given) and \<open>view_type\<close> what the radio returns.
\<close>

definition app :: "filesystem \<Rightarrow> string \<Rightarrow> string \<Rightarrow> string \<Rightarrow> outcome" where
  "app fs excel_file_path selected_area view_type =
     (case load_data fs excel_file_path of
        Inl e \<Rightarrow> Stopped (LoadFailed excel_file_path e)
      | Inr data_dict \<Rightarrow>
          if data_dict = [] then Stopped NoValidWorksheets
          else
            (case map_of data_dict selected_area of
               None \<Rightarrow> Raised KeyError
             | Some selected_df \<Rightarrow>
                 (case render selected_area selected_df view_type of
                    Inl e \<Rightarrow> Raised e
                  | Inr fig \<Rightarrow> Charted fig)))"

section \<open>Example workbooks\<close>

text \<open>
  Small sheets used to evaluate the definitions: a borough sheet whose columns are not in
  the order of the fixed list, a sheet without a Year column, a sheet without rows, a
  sheet with nothing but years, a sheet whose years are text, and a sheet whose Year
  column mixes a number with a text.
\<close>

definition bromley_sheet :: dataframe where
  "bromley_sheet =
     \<lparr>index_len = 2,
      series =
        [(StrLabel ''Year'', [IntCell 2026, IntCell 2025]),
         (StrLabel ''80+_pct'', [IntCell 3, IntCell 0]),
         (StrLabel ''80+'', [IntCell 103, IntCell 100]),
         (StrLabel ''0-24'', [IntCell 990, IntCell 1000]),
         (StrLabel ''0-24_pct'', [IntCell (- 1), IntCell 0])]\<rparr>"

definition notes_sheet :: dataframe where
  "notes_sheet = \<lparr>index_len = 1, series = [(StrLabel ''Source'', [StrCell ''GLA''])]\<rparr>"

definition blank_sheet :: dataframe where
  "blank_sheet = \<lparr>index_len = 0, series = []\<rparr>"

definition year_only_sheet :: dataframe where
  "year_only_sheet =
     \<lparr>index_len = 2, series = [(StrLabel ''Year'', [IntCell 2025, IntCell 2026])]\<rparr>"

definition text_year_sheet :: dataframe where
  "text_year_sheet =
     \<lparr>index_len = 2,
      series =
        [(StrLabel ''Year'', [StrCell ''2025/26'', StrCell ''2026/27'']),
         (StrLabel ''0-24'', [IntCell 1000, IntCell 990])]\<rparr>"

definition mixed_year_sheet :: dataframe where
  "mixed_year_sheet =
     \<lparr>index_len = 2, series = [(StrLabel ''Year'', [IntCell 2025, StrCell ''2026 (provisional)''])]\<rparr>"

definition example_fs :: filesystem where
  "example_fs path =
     (if path = ''population.xlsx'' then
        Inr [(''Bromley'', bromley_sheet), (''Notes'', notes_sheet),
             (''Blank'', blank_sheet), (''Lewisham'', year_only_sheet)]
      else if path = ''notes.xlsx'' then Inr [(''Notes'', notes_sheet)]
      else if path = ''mixed.xlsx'' then Inr [(''Greenwich'', mixed_year_sheet)]
      else if path = ''text.xlsx'' then Inr [(''Bexley'', text_year_sheet)]
      else Inl FileNotFoundError)"

section \<open>Helper lemmas\<close>

lemma dict_set_fresh: "k \<notin> fst ` set d \<Longrightarrow> dict_set d k v = d @ [(k, v)]"
  by (induction d) auto

lemma load_sheets_filter:
  "distinct (map fst wb) \<Longrightarrow> fst ` set wb \<inter> fst ` set d = {} \<Longrightarrow>
   load_sheets wb d =
     d @ filter (\<lambda>(n, df). \<not> df_empty df \<and> StrLabel ''Year'' \<in> set (columns df)) wb"
proof (induction wb arbitrary: d)
  case Nil
  then show ?case by simp
next
  case (Cons p wb)
  obtain n df where p: "p = (n, df)" by (cases p)
  from Cons.prems p have fresh: "n \<notin> fst ` set d" and dist: "distinct (map fst wb)"
    and nwb: "n \<notin> fst ` set wb" and disj: "fst ` set wb \<inter> fst ` set d = {}"
    by auto
  show ?case
  proof (cases "\<not> df_empty df \<and> StrLabel ''Year'' \<in> set (columns df)")
    case True
    from nwb disj have "fst ` set wb \<inter> fst ` set (d @ [(n, df)]) = {}" by auto
    with Cons.IH [OF dist] True fresh p show ?thesis
      by (simp add: dict_set_fresh)
  next
    case False
    with Cons.IH [OF dist disj] p show ?thesis by auto
  qed
qed

lemma endswith_iff: "endswith s suffix \<longleftrightarrow> (\<exists>stem. s = stem @ suffix)"
proof
  assume "endswith s suffix"
  then have "s = take (length s - length suffix) s @ suffix"
    unfolding endswith_def by (metis append_take_drop_id)
  then show "\<exists>stem. s = stem @ suffix" ..
next
  assume "\<exists>stem. s = stem @ suffix"
  then show "endswith s suffix" by (auto simp: endswith_def)
qed

lemma pct_columns_text:
  "pct_columns (map StrLabel names) = Inr (filter (\<lambda>col. endswith col ''_pct'') names)"
  by (induction names) auto

lemma pct_columns_subset:
  "pct_columns cols = Inr ps \<Longrightarrow> c \<in> set ps \<Longrightarrow> StrLabel c \<in> set cols"
proof (induction cols arbitrary: ps rule: pct_columns.induct)
  case 1
  then show ?case by simp
next
  case (2 n cols)
  then show ?case by simp
next
  case (3 col cols)
  then show ?case by (auto split: sum.splits if_splits)
qed


lemma select_view_subset:
  "select_view view_type df = Inr v \<Longrightarrow> c \<in> set (plot_columns v) \<Longrightarrow> StrLabel c \<in> set (columns df)"
  by (auto simp: select_view_def split: if_splits sum.splits dest: pct_columns_subset)


lemma px_traces_colors:
  "px_traces df xs cols cm = Inr ts \<Longrightarrow> t \<in> set ts \<Longrightarrow> trace_color t = map_of cm (trace_name t)"
  by (induction cols arbitrary: ts) (auto split: option.splits sum.splits)


lemma getitem_list_head:
  "getitem_list df (k # ks) = Inr plot_df \<Longrightarrow> getitem plot_df k = getitem df k"
  by (auto simp: getitem_list_def getitem_def split: option.splits sum.splits)

lemma render_Inr:
  assumes "render selected_area selected_df view_type = Inr fig"
  obtains v plot_df fig0 years lo hi where
    "select_view view_type selected_df = Inr v"
    "getitem_list selected_df (StrLabel ''Year'' # map StrLabel (plot_columns v)) = Inr plot_df"
    "px_line plot_df ''Year'' (plot_columns v) (y_label v) ''Age group''
       (selected_area @ title_suffix v) color_map = Inr fig0"
    "getitem plot_df (StrLabel ''Year'') = Inr years"
    "series_min years = Inr lo" "series_max years = Inr hi"
    "fig = (if zero_line v then add_hline (update_xaxes (update_traces fig0 3) lo hi) 0 ''dash'' ''gray''
            else update_xaxes (update_traces fig0 3) lo hi)"
  using assms unfolding render_def Let_def
  by (auto split: sum.splits)

lemma app_Charted:
  assumes "app fs excel_file_path selected_area view_type = Charted fig"
  obtains data_dict selected_df where
    "load_data fs excel_file_path = Inr data_dict"
    "map_of data_dict selected_area = Some selected_df"
    "render selected_area selected_df view_type = Inr fig"
  using assms unfolding app_def
  by (auto split: sum.splits if_splits option.splits)

lemma series_min_ints:
  "ns \<noteq> [] \<Longrightarrow> series_min (map IntCell ns) = Inr (IntCell (Min (set ns)))"
proof -
  assume "ns \<noteq> []"
  then obtain n ms where ns: "ns = n # ms" by (cases ns) auto
  have "numbers (map IntCell ns) = ns" by (induction ns) auto
  moreover have "\<not> list_ex is_text (map IntCell ns)" by (induction ns) auto
  moreover have "fold min ms n = Min (set ns)"
    unfolding ns by (rule Min.set_eq_fold [symmetric])
  ultimately show ?thesis
    using ns by (simp add: series_min_def)
qed

lemma series_max_ints:
  "ns \<noteq> [] \<Longrightarrow> series_max (map IntCell ns) = Inr (IntCell (Max (set ns)))"
proof -
  assume "ns \<noteq> []"
  then obtain n ms where ns: "ns = n # ms" by (cases ns) auto
  have "numbers (map IntCell ns) = ns" by (induction ns) auto
  moreover have "\<not> list_ex is_text (map IntCell ns)" by (induction ns) auto
  moreover have "fold max ms n = Max (set ns)"
    unfolding ns by (rule Max.set_eq_fold [symmetric])
  ultimately show ?thesis
    using ns by (simp add: series_max_def)
qed

lemma series_min_defined:
  "list_all is_text cs \<or> \<not> list_ex is_text cs \<Longrightarrow> \<exists>lo. series_min cs = Inr lo"
  by (auto simp: series_min_def split: list.splits)

lemma series_max_defined:
  "list_all is_text cs \<or> \<not> list_ex is_text cs \<Longrightarrow> \<exists>hi. series_max cs = Inr hi"
  by (auto simp: series_max_def split: list.splits)

lemma map_of_dict_set:
  "map_of (dict_set d k v) k' = (if k' = k then Some v else map_of d k')"
  by (induction d) auto

lemma load_sheets_has_year:
  "map_of (load_sheets wb d) k = Some df \<Longrightarrow>
   (\<And>k df. map_of d k = Some df \<Longrightarrow> StrLabel ''Year'' \<in> set (columns df)) \<Longrightarrow>
   StrLabel ''Year'' \<in> set (columns df)"
proof (induction wb d rule: load_sheets.induct)
  case (1 d)
  then show ?case by simp
next
  case (2 sheet_name sheet rest d)
  show ?case
  proof (rule "2.IH")
    from "2.prems"(1) show "map_of (load_sheets rest
       (if \<not> df_empty sheet \<and> StrLabel ''Year'' \<in> set (columns sheet)
        then dict_set d sheet_name sheet else d)) k = Some df"
      by simp
  next
    fix k' df'
    assume "map_of (if \<not> df_empty sheet \<and> StrLabel ''Year'' \<in> set (columns sheet)
        then dict_set d sheet_name sheet else d) k' = Some df'"
    with "2.prems"(2) show "StrLabel ''Year'' \<in> set (columns df')"
      by (auto simp: map_of_dict_set split: if_splits)
  qed
qed

lemma loaded_sheet_has_year:
  assumes "load_data fs excel_file = Inr data_dict" and "map_of data_dict k = Some df"
  shows "\<exists>years. getitem df (StrLabel ''Year'') = Inr years"
proof -
  from assms obtain wb where "map_of (load_sheets wb []) k = Some df"
    by (auto simp: load_data_def split: sum.splits)
  then have "StrLabel ''Year'' \<in> set (columns df)"
    by (rule load_sheets_has_year) simp
  then have "StrLabel ''Year'' \<in> fst ` set (series df)" by (simp add: columns_def)
  then obtain years where "map_of (series df) (StrLabel ''Year'') = Some years"
    by (metis domIff dom_map_of_conv_image_fst not_Some_eq)
  then show ?thesis by (simp add: getitem_def)
qed

lemma pct_columns_Inr:
  "pct_columns cols = Inr ps \<Longrightarrow> \<exists>names. cols = map StrLabel names"
proof (induction cols arbitrary: ps rule: pct_columns.induct)
  case 1
  then show ?case by simp
next
  case (2 n cols)
  then show ?case by simp
next
  case (3 col cols)
  then obtain rest where "pct_columns cols = Inr rest" by (auto split: sum.splits)
  with "3.IH" obtain names where "cols = map StrLabel names" by blast
  then have "StrLabel col # cols = map StrLabel (col # names)" by simp
  then show ?case ..
qed

lemma filter_pct_labels:
  "filter (\<lambda>c. \<exists>stem. c = StrLabel (stem @ ''_pct'')) (map StrLabel names) =
   map StrLabel (filter (\<lambda>col. \<exists>stem. col = stem @ ''_pct'') names)"
  by (induction names) auto

lemma render_trace_colors:
  assumes "render selected_area selected_df view_type = Inr fig" and "t \<in> set (traces fig)"
  shows "trace_color t = map_of color_map (trace_name t)"
  using assms(1)
proof (rule render_Inr)
  fix v plot_df fig0 years lo hi
  assume px: "px_line plot_df ''Year'' (plot_columns v) (y_label v) ''Age group''
                 (selected_area @ title_suffix v) color_map = Inr fig0"
    and fig: "fig = (if zero_line v
                 then add_hline (update_xaxes (update_traces fig0 3) lo hi) 0 ''dash'' ''gray''
                 else update_xaxes (update_traces fig0 3) lo hi)"
  from fig have "traces fig = map (\<lambda>t. t\<lparr>trace_width := 3\<rparr>) (traces fig0)"
    by (simp add: add_hline_def update_xaxes_def update_traces_def)
  with assms(2) obtain t0 where t0: "t0 \<in> set (traces fig0)" and t: "t = t0\<lparr>trace_width := 3\<rparr>"
    by auto
  from px t0 have "trace_color t0 = map_of color_map (trace_name t0)"
    by (auto simp: px_line_def split: option.splits sum.splits dest: px_traces_colors)
  with t show ?thesis by simp
qed

lemma map_of_filter_distinct:
  "distinct (map fst xs) \<Longrightarrow> (k, x) \<in> set xs \<Longrightarrow> P (k, x) \<Longrightarrow> map_of (filter P xs) k = Some x"
  by (induction xs) (auto simp: rev_image_eqI)

lemma example_load:
  "load_data example_fs ''population.xlsx'' =
     Inr [(''Bromley'', bromley_sheet), (''Lewisham'', year_only_sheet)]"
  by (simp add: load_data_def example_fs_def bromley_sheet_def notes_sheet_def
      blank_sheet_def year_only_sheet_def df_empty_def columns_def)

lemma example_chart_pct:
  "\<exists>fig. app example_fs ''population.xlsx'' ''Bromley'' ''Percent change'' = Charted fig"
  by (simp add: app_def example_load bromley_sheet_def columns_def render_def
      select_view_def endswith_def getitem_list_def getitem_def px_line_def series_min_def
      series_max_def Let_def)


section \<open>The loader keeps exactly the sheets with rows and a Year column\<close>

text \<open>
  C1. For a workbook that opens (its sheet names are distinct, as in every workbook),
  \<^verbatim>\<open>load_data\<close> returns exactly the sheets that are not empty and have a column
  labelled "Year", under their names and in workbook order; every other sheet is absent.
\<close>

theorem load_data_keeps_valid_sheets:
  assumes "fs excel_file = Inr wb" and "distinct (map fst wb)"
  shows "load_data fs excel_file =
           Inr (filter (\<lambda>(n, df). index_len df \<noteq> 0 \<and> series df \<noteq> [] \<and>
                                   StrLabel ''Year'' \<in> fst ` set (series df)) wb)"
proof -
  have "load_sheets wb [] =
          filter (\<lambda>(n, df). \<not> df_empty df \<and> StrLabel ''Year'' \<in> set (columns df)) wb"
    using load_sheets_filter [OF assms(2), of "[]"] by simp
  also have "\<dots> = filter (\<lambda>(n, df). index_len df \<noteq> 0 \<and> series df \<noteq> [] \<and>
                                   StrLabel ''Year'' \<in> fst ` set (series df)) wb"
    by (rule filter_cong) (auto simp: df_empty_def columns_def)
  finally show ?thesis using assms(1) by (simp add: load_data_def)
qed

text \<open>
  On the example workbook: of the four sheets, the one without a Year column and the one
  without rows are dropped, and the other two keep their order.
\<close>

theorem load_data_keeps_valid_sheets_witness:
  "load_data example_fs ''population.xlsx'' =
     Inr [(''Bromley'', bromley_sheet), (''Lewisham'', year_only_sheet)]"
  using load_data_keeps_valid_sheets
    [of example_fs "''population.xlsx''"
        "[(''Bromley'', bromley_sheet), (''Notes'', notes_sheet),
          (''Blank'', blank_sheet), (''Lewisham'', year_only_sheet)]"]
  by (simp add: example_fs_def bromley_sheet_def notes_sheet_def blank_sheet_def
      year_only_sheet_def)

section \<open>A file that cannot be opened\<close>

text \<open>
  C2 says that \<^verbatim>\<open>load_data\<close> returns an empty mapping for a file that cannot be read.
  It does not: for a path that does not open, the result is the exception, not the empty
  dictionary.
\<close>

theorem load_data_unreadable_counterexample:
  "load_data example_fs ''missing.xlsx'' \<noteq> Inr []"
  by (simp add: load_data_def example_fs_def)

text \<open>
  C2, as the script has it: when opening the file raises, \<^verbatim>\<open>load_data\<close> raises the
  same exception to its caller, and the caller's \<^verbatim>\<open>try/except\<close> shows the load-failure
  message with the path and the cause and stops; no mapping is returned and no chart is
  drawn.
\<close>

theorem load_data_unreadable_raises:
  assumes "fs excel_file_path = Inl e"
  shows "load_data fs excel_file_path = Inl e \<and>
         app fs excel_file_path selected_area view_type =
           Stopped (LoadFailed excel_file_path e)"
  using assms by (simp add: load_data_def app_def)

theorem load_data_unreadable_raises_witness:
  "load_data example_fs ''missing.xlsx'' = Inl FileNotFoundError \<and>
   app example_fs ''missing.xlsx'' ''Bromley'' ''Counts'' =
     Stopped (LoadFailed ''missing.xlsx'' FileNotFoundError)"
  using load_data_unreadable_raises
    [of example_fs "''missing.xlsx''" FileNotFoundError "''Bromley''" "''Counts''"]
  by (simp add: example_fs_def)

section \<open>The plotted columns\<close>

text \<open>
  C3. In the percent-change view the plotted columns are exactly the columns of the sheet
  whose name ends with "_pct", in the sheet's own column order. Whenever the list is
  computed it is that list; and it is computed for every sheet whose labels are all text
  (a numeric header has no \<^verbatim>\<open>endswith\<close>, and the comprehension raises).
\<close>

theorem percent_change_plot_columns:
  "(select_view ''Percent change'' df = Inr v \<longrightarrow>
      map StrLabel (plot_columns v) =
        filter (\<lambda>c. \<exists>stem. c = StrLabel (stem @ ''_pct'')) (columns df)) \<and>
   (columns df = map StrLabel names \<longrightarrow>
      (\<exists>v. select_view ''Percent change'' df = Inr v \<and>
           plot_columns v = filter (\<lambda>col. \<exists>stem. col = stem @ ''_pct'') names))"
proof (intro conjI impI)
  assume v: "select_view ''Percent change'' df = Inr v"
  then obtain ps where ps: "pct_columns (columns df) = Inr ps" and pv: "plot_columns v = ps"
    by (auto simp: select_view_def split: sum.splits)
  from ps obtain ns where ns: "columns df = map StrLabel ns"
    using pct_columns_Inr by blast
  with ps have "ps = filter (\<lambda>col. \<exists>stem. col = stem @ ''_pct'') ns"
    by (simp add: pct_columns_text endswith_iff)
  with pv ns show "map StrLabel (plot_columns v) =
        filter (\<lambda>c. \<exists>stem. c = StrLabel (stem @ ''_pct'')) (columns df)"
    by (simp add: filter_pct_labels)
next
  assume "columns df = map StrLabel names"
  then show "\<exists>v. select_view ''Percent change'' df = Inr v \<and>
           plot_columns v = filter (\<lambda>col. \<exists>stem. col = stem @ ''_pct'') names"
    by (simp add: select_view_def pct_columns_text endswith_iff)
qed

text \<open>
  The borough sheet has "80+_pct" before "0-24_pct": the plotted columns keep that order.
\<close>

theorem percent_change_plot_columns_witness:
  "\<exists>v. select_view ''Percent change'' bromley_sheet = Inr v \<and>
       plot_columns v = [''80+_pct'', ''0-24_pct'']"
proof -
  have "columns bromley_sheet =
          map StrLabel [''Year'', ''80+_pct'', ''80+'', ''0-24'', ''0-24_pct'']"
    by (simp add: bromley_sheet_def columns_def)
  with percent_change_plot_columns
    [of bromley_sheet _ "[''Year'', ''80+_pct'', ''80+'', ''0-24'', ''0-24_pct'']"]
  have "\<exists>v. select_view ''Percent change'' bromley_sheet = Inr v \<and>
          plot_columns v = filter (\<lambda>col. \<exists>stem. col = stem @ ''_pct'')
            [''Year'', ''80+_pct'', ''80+'', ''0-24'', ''0-24_pct'']"
    by blast
  then show ?thesis
    by (simp add: endswith_iff [symmetric] endswith_def)
qed

text \<open>
  C4. In the counts view (every view other than "Percent change" takes the
  \<^verbatim>\<open>else\<close> branch) the plotted columns are the fixed list 0-24, 25-64, 65-79, 80+,
  All ages restricted to the columns the sheet has, in the order of the fixed list; two
  sheets with the same set of columns, in whatever physical order, give the same result.
\<close>

theorem counts_plot_columns:
  assumes "view_type \<noteq> ''Percent change''"
  shows "\<exists>v. select_view view_type df = Inr v \<and>
             plot_columns v =
               filter (\<lambda>col. StrLabel col \<in> set (columns df))
                 [''0-24'', ''25-64'', ''65-79'', ''80+'', ''All ages''] \<and>
             (\<forall>df'. set (columns df') = set (columns df) \<longrightarrow>
                select_view view_type df' = Inr v)"
  using assms by (simp add: select_view_def)

text \<open>
  The borough sheet has "80+" before "0-24"; the plotted columns come in the fixed order.
\<close>

theorem counts_plot_columns_witness:
  "\<exists>v. select_view ''Counts'' bromley_sheet = Inr v \<and>
       plot_columns v = [''0-24'', ''80+'']"
proof -
  have "''Counts'' \<noteq> ''Percent change''" by simp
  from counts_plot_columns [OF this, of bromley_sheet] obtain v where
    v: "select_view ''Counts'' bromley_sheet = Inr v"
    and cols: "plot_columns v =
      filter (\<lambda>col. StrLabel col \<in> set (columns bromley_sheet))
        [''0-24'', ''25-64'', ''65-79'', ''80+'', ''All ages'']"
    by blast
  from cols have "plot_columns v = [''0-24'', ''80+'']"
    by (simp add: bromley_sheet_def columns_def)
  with v show ?thesis by blast
qed

section \<open>The chart\<close>




text \<open>
  C6. Each of the five count series has a colour in the colour map, and its "_pct"
  variant has the same colour; in every chart the script builds, a trace named after
  the series or after its "_pct" variant is drawn in that colour.
\<close>

theorem pct_variant_shares_color:
  assumes "S \<in> set [''0-24'', ''25-64'', ''65-79'', ''80+'', ''All ages'']"
  shows "\<exists>c. map_of color_map S = Some c \<and> map_of color_map (S @ ''_pct'') = Some c \<and>
           (\<forall>selected_area selected_df view_type fig t.
              render selected_area selected_df view_type = Inr fig \<and> t \<in> set (traces fig) \<and>
              (trace_name t = S \<or> trace_name t = S @ ''_pct'') \<longrightarrow>
              trace_color t = Some c)"
proof -
  from assms obtain c where
    c: "map_of color_map S = Some c" "map_of color_map (S @ ''_pct'') = Some c"
    by (auto simp: color_map_def)
  have "trace_color t = Some c"
    if "render selected_area selected_df view_type = Inr fig" and "t \<in> set (traces fig)"
      and "trace_name t = S \<or> trace_name t = S @ ''_pct''"
    for selected_area selected_df view_type fig t
    using render_trace_colors [OF that(1,2)] that(3) c by auto
  with c show ?thesis by blast
qed

theorem pct_variant_shares_color_witness:
  "map_of color_map ''80+'' = Some ''#E74C3C'' \<and>
   map_of color_map ''80+_pct'' = Some ''#E74C3C''"
proof -
  have "''80+'' \<in> set [''0-24'', ''25-64'', ''65-79'', ''80+'', ''All ages'']" by simp
  from pct_variant_shares_color [OF this] obtain c where
    "map_of color_map ''80+'' = Some c" and "map_of color_map (''80+'' @ ''_pct'') = Some c"
    by blast
  moreover have "map_of color_map ''80+'' = Some ''#E74C3C''"
    by (simp add: color_map_def)
  ultimately show ?thesis by simp
qed

text \<open>
  C7. Whenever the script draws a chart, the x-axis range is set to the pair of
  \<^verbatim>\<open>min()\<close> and \<^verbatim>\<open>max()\<close> of the Year column of the filtered table (which is
  the Year column of the selected sheet); for a Year column of whole numbers these are
  the least and the greatest year.
\<close>

theorem xaxis_range_is_year_extent:
  assumes "app fs excel_file_path selected_area view_type = Charted fig"
  shows "\<exists>data_dict selected_df v plot_df years lo hi.
           load_data fs excel_file_path = Inr data_dict \<and>
           map_of data_dict selected_area = Some selected_df \<and>
           select_view view_type selected_df = Inr v \<and>
           getitem_list selected_df (StrLabel ''Year'' # map StrLabel (plot_columns v)) = Inr plot_df \<and>
           getitem plot_df (StrLabel ''Year'') = Inr years \<and>
           getitem selected_df (StrLabel ''Year'') = Inr years \<and>
           series_min years = Inr lo \<and> series_max years = Inr hi \<and>
           xaxis_range fig = Some (lo, hi) \<and>
           (\<forall>ns. ns \<noteq> [] \<and> years = map IntCell ns \<longrightarrow>
              lo = IntCell (Min (set ns)) \<and> hi = IntCell (Max (set ns)))"
proof -
  from assms obtain data_dict selected_df where
    d: "load_data fs excel_file_path = Inr data_dict"
    and s: "map_of data_dict selected_area = Some selected_df"
    and r: "render selected_area selected_df view_type = Inr fig"
    by (rule app_Charted)
  from r show ?thesis
  proof (rule render_Inr)
    fix v plot_df fig0 years lo hi
    assume v: "select_view view_type selected_df = Inr v"
      and p: "getitem_list selected_df (StrLabel ''Year'' # map StrLabel (plot_columns v)) = Inr plot_df"
      and y: "getitem plot_df (StrLabel ''Year'') = Inr years"
      and lo: "series_min years = Inr lo" and hi: "series_max years = Inr hi"
      and fig: "fig = (if zero_line v
                 then add_hline (update_xaxes (update_traces fig0 3) lo hi) 0 ''dash'' ''gray''
                 else update_xaxes (update_traces fig0 3) lo hi)"
    from p y have y': "getitem selected_df (StrLabel ''Year'') = Inr years"
      by (simp add: getitem_list_head)
    from fig have x: "xaxis_range fig = Some (lo, hi)"
      by (simp add: add_hline_def update_xaxes_def update_traces_def)
    have "\<forall>ns. ns \<noteq> [] \<and> years = map IntCell ns \<longrightarrow>
              lo = IntCell (Min (set ns)) \<and> hi = IntCell (Max (set ns))"
      using lo hi by (auto simp: series_min_ints series_max_ints)
    with d s v p y y' lo hi x show ?thesis by blast
  qed
qed

text \<open>The borough sheet lists 2026 before 2025; the range is 2025 to 2026.\<close>

theorem xaxis_range_is_year_extent_witness:
  "\<exists>fig. app example_fs ''population.xlsx'' ''Bromley'' ''Percent change'' = Charted fig \<and>
     xaxis_range fig = Some (IntCell 2025, IntCell 2026)"
proof -
  from example_chart_pct obtain fig where
    f: "app example_fs ''population.xlsx'' ''Bromley'' ''Percent change'' = Charted fig" ..
  from xaxis_range_is_year_extent [OF f] obtain data_dict selected_df years lo hi where
    d: "load_data example_fs ''population.xlsx'' = Inr data_dict"
    and s: "map_of data_dict ''Bromley'' = Some selected_df"
    and y: "getitem selected_df (StrLabel ''Year'') = Inr years"
    and x: "xaxis_range fig = Some (lo, hi)"
    and m: "\<forall>ns. ns \<noteq> [] \<and> years = map IntCell ns \<longrightarrow>
              lo = IntCell (Min (set ns)) \<and> hi = IntCell (Max (set ns))"
    by blast
  from d s have "selected_df = bromley_sheet"
    by (auto simp: example_load)
  with y have "years = map IntCell [2026, 2025]"
    by (simp add: getitem_def bromley_sheet_def)
  with m have "lo = IntCell (Min (set [2026, 2025])) \<and> hi = IntCell (Max (set [2026, 2025]))"
    by blast
  then have "lo = IntCell 2025 \<and> hi = IntCell 2026" by simp
  with f x show ?thesis by simp
qed

section \<open>No plotted column\<close>

text \<open>
  C8 says that the plotted columns are columns of the sheet, and that with no plotted
  column the script still draws a chart (with no series) instead of raising. The second
  half fails on a sheet whose Year column mixes a number and a text: the counts view
  finds no column to plot, and \<^verbatim>\<open>plot_df['Year'].min()\<close> raises \<^verbatim>\<open>TypeError\<close>.
\<close>

theorem empty_plot_columns_counterexample:
  "(\<exists>v. select_view ''Counts'' mixed_year_sheet = Inr v \<and> plot_columns v = []) \<and>
   app example_fs ''mixed.xlsx'' ''Greenwich'' ''Counts'' = Raised TypeError"
  by (simp add: app_def load_data_def example_fs_def mixed_year_sheet_def df_empty_def
      columns_def render_def select_view_def getitem_list_def getitem_def px_line_def
      series_min_def series_max_def)

text \<open>
  C8, as the script has it: for a sheet of the loaded dataset, the plotted columns are
  columns of the sheet; the sheet has a Year column; and when there is no plotted column
  and the Year cells are all text or none of them is (so that their minimum and maximum
  exist), the script draws a chart with no series.
\<close>

theorem plot_columns_subset_and_empty_chart:
  assumes "load_data fs excel_file_path = Inr data_dict"
    and "map_of data_dict selected_area = Some selected_df"
    and "select_view view_type selected_df = Inr v"
  shows "StrLabel ` set (plot_columns v) \<subseteq> set (columns selected_df) \<and>
         (\<exists>years. getitem selected_df (StrLabel ''Year'') = Inr years \<and>
            (plot_columns v = [] \<and> (list_all is_text years \<or> \<not> list_ex is_text years) \<longrightarrow>
               (\<exists>fig. app fs excel_file_path selected_area view_type = Charted fig \<and>
                      traces fig = [])))"
proof
  from assms(3) show "StrLabel ` set (plot_columns v) \<subseteq> set (columns selected_df)"
    by (auto dest: select_view_subset)
next
  from assms(1,2) obtain years where
    y: "getitem selected_df (StrLabel ''Year'') = Inr years"
    using loaded_sheet_has_year by blast
  have "\<exists>fig. app fs excel_file_path selected_area view_type = Charted fig \<and> traces fig = []"
    if e: "plot_columns v = []" and c: "list_all is_text years \<or> \<not> list_ex is_text years"
  proof -
    from c obtain lo hi where lo: "series_min years = Inr lo" and hi: "series_max years = Inr hi"
      using series_min_defined series_max_defined by blast
    from y have m: "map_of (series selected_df) (StrLabel ''Year'') = Some years"
      by (simp add: getitem_def split: option.splits)
    from assms(2) have ne: "data_dict \<noteq> []" by auto
    have "\<exists>fig. render selected_area selected_df view_type = Inr fig \<and> traces fig = []"
      using assms(3) e m lo hi
      by (simp add: render_def getitem_list_def getitem_def px_line_def update_traces_def
          update_xaxes_def add_hline_def Let_def)
    with assms(1,2) ne show ?thesis
      by (auto simp: app_def)
  qed
  with y show "\<exists>years. getitem selected_df (StrLabel ''Year'') = Inr years \<and>
            (plot_columns v = [] \<and> (list_all is_text years \<or> \<not> list_ex is_text years) \<longrightarrow>
               (\<exists>fig. app fs excel_file_path selected_area view_type = Charted fig \<and>
                      traces fig = []))"
    by blast
qed

text \<open>
  The sheet with nothing but years, in the percent-change view: a chart with no series.
\<close>

theorem plot_columns_subset_and_empty_chart_witness:
  "\<exists>fig. app example_fs ''population.xlsx'' ''Lewisham'' ''Percent change'' = Charted fig \<and>
     traces fig = []"
proof -
  have s: "map_of [(''Bromley'', bromley_sheet), (''Lewisham'', year_only_sheet)] ''Lewisham'' =
             Some year_only_sheet"
    by simp
  have v: "select_view ''Percent change'' year_only_sheet =
             Inr \<lparr>plot_columns = [], y_label = ''Percent change (%)'',
                  title_suffix = '' '' @ en_dash @ '' Percent Change'', zero_line = True\<rparr>"
    by (simp add: select_view_def year_only_sheet_def columns_def endswith_def)
  have y: "getitem year_only_sheet (StrLabel ''Year'') = Inr [IntCell 2025, IntCell 2026]"
    by (simp add: getitem_def year_only_sheet_def)
  from plot_columns_subset_and_empty_chart [OF example_load s v] y show ?thesis
    by simp
qed

section \<open>No valid sheet\<close>

text \<open>
  C9. When the file opens and the loaded dataset is empty, the script shows the
  no-valid-worksheets message and stops: no chart is drawn. In particular this happens
  for a workbook whose only sheet has no Year column.
\<close>

theorem no_valid_sheets_stops:
  "(load_data fs excel_file_path = Inr [] \<longrightarrow>
      app fs excel_file_path selected_area view_type = Stopped NoValidWorksheets) \<and>
   (fs excel_file_path = Inr [(sheet_name, df)] \<and> StrLabel ''Year'' \<notin> set (columns df) \<longrightarrow>
      load_data fs excel_file_path = Inr [] \<and>
      app fs excel_file_path selected_area view_type = Stopped NoValidWorksheets)"
  by (simp add: app_def load_data_def)

theorem no_valid_sheets_stops_witness:
  "load_data example_fs ''notes.xlsx'' = Inr [] \<and>
   app example_fs ''notes.xlsx'' ''Notes'' ''Counts'' = Stopped NoValidWorksheets"
proof -
  have "example_fs ''notes.xlsx'' = Inr [(''Notes'', notes_sheet)] \<and>
        StrLabel ''Year'' \<notin> set (columns notes_sheet)"
    by (simp add: example_fs_def notes_sheet_def columns_def)
  with no_valid_sheets_stops
    [of example_fs "''notes.xlsx''" "''Notes''" "''Counts''" "''Notes''" notes_sheet]
  show ?thesis by blast
qed

section \<open>The loader does not look at the years\<close>

text \<open>
  C10. The loader looks only for a column labelled "Year": a sheet with at least one row
  and such a column is in the loaded dataset whatever the cells \<open>years\<close> of that column
  are, text included.
\<close>

theorem loader_ignores_year_values:
  assumes "fs excel_file = Inr wb" and "distinct (map fst wb)"
    and "(sheet_name, df) \<in> set wb"
    and "index_len df \<noteq> 0" and "(StrLabel ''Year'', years) \<in> set (series df)"
  shows "\<exists>data_dict. load_data fs excel_file = Inr data_dict \<and>
           map_of data_dict sheet_name = Some df"
proof -
  let ?P = "\<lambda>(n, df). \<not> df_empty df \<and> StrLabel ''Year'' \<in> set (columns df)"
  from assms(4,5) have "?P (sheet_name, df)"
    by (auto simp: df_empty_def columns_def rev_image_eqI)
  with assms(2,3) have "map_of (filter ?P wb) sheet_name = Some df"
    by (rule map_of_filter_distinct)
  moreover have "load_sheets wb [] = filter ?P wb"
    using load_sheets_filter [OF assms(2), of "[]"] by simp
  ultimately show ?thesis using assms(1) by (simp add: load_data_def)
qed

text \<open>A sheet whose years are the texts "2025/26" and "2026/27" is loaded.\<close>

theorem loader_ignores_year_values_witness:
  "load_data example_fs ''text.xlsx'' = Inr [(''Bexley'', text_year_sheet)] \<and>
   getitem text_year_sheet (StrLabel ''Year'') = Inr [StrCell ''2025/26'', StrCell ''2026/27'']"
proof -
  have "\<exists>data_dict. load_data example_fs ''text.xlsx'' = Inr data_dict \<and>
           map_of data_dict ''Bexley'' = Some text_year_sheet"
    by (rule loader_ignores_year_values
          [of example_fs "''text.xlsx''" "[(''Bexley'', text_year_sheet)]" _ _
              "[StrCell ''2025/26'', StrCell ''2026/27'']"])
       (simp_all add: example_fs_def text_year_sheet_def)
  then show ?thesis
    by (auto simp: load_data_def example_fs_def text_year_sheet_def df_empty_def columns_def
        getitem_def)
qed

end
